theory Spec2Isabelle
  imports Main
begin

section \<open>JavaScript values and errors\<close>

text \<open>
  A thrown JavaScript error is a value with a \<open>name\<close> and a \<open>message\<close>.
  \<open>BadArgsError\<close> is the plugin's own error class: its constructor passes the message on
  and sets the name to \<open>ValidateEnvVarsPluginBadArgsError\<close>.
\<close>

datatype error = JSError (ename: string) (emessage: string)

definition BadArgsError :: "string \<Rightarrow> error" where
  "BadArgsError message = JSError ''ValidateEnvVarsPluginBadArgsError'' message"

text \<open>
  The option values the plugin inspects at run time. A regular expression is given by the
  function its \<open>test\<close> method computes (a pattern without the \<open>g\<close> and \<open>y\<close> flags, whose
  \<open>test\<close> keeps no state between calls). An object is the list of its own enumerable
  properties in key order; an array is dense. A number is an integer here: the code only
  asks whether a value is a number and whether it is falsy.
\<close>

datatype jsval =
    JUndefined
  | JNull
  | JBool bool
  | JNum int
  | JStr string
  | JRegExp "string \<Rightarrow> bool"
  | JArr "jsval list"
  | JObj "(string \<times> jsval) list"

text \<open>\<open>!v\<close> is true exactly for the falsy values.\<close>

fun truthy :: "jsval \<Rightarrow> bool" where
  "truthy JUndefined = False"
| "truthy JNull = False"
| "truthy (JBool b) = b"
| "truthy (JNum n) = (n \<noteq> 0)"
| "truthy (JStr s) = (s \<noteq> [])"
| "truthy (JRegExp t) = True"
| "truthy (JArr xs) = True"
| "truthy (JObj kvs) = True"

text \<open>\<open>input.startsWith(check)\<close>.\<close>

fun startsWith :: "string \<Rightarrow> string \<Rightarrow> bool" where
  "startsWith input [] = True"
| "startsWith [] (c # cs) = False"
| "startsWith (x # xs) (c # cs) = (x = c \<and> startsWith xs cs)"

text \<open>
  \<open>input.replace(/^process\.env\./, "")\<close>: the pattern is anchored at the start and has no
  \<open>g\<close> flag, so one leading occurrence of the qualifier is removed and nothing else.
\<close>

definition stripProcessEnv :: "string \<Rightarrow> string" where
  "stripProcessEnv input =
     (if startsWith input ''process.env.'' then drop (length ''process.env.'') input else input)"

text \<open>\<open>arr.map(f)\<close> where \<open>f\<close> may throw: the first throw ends the loop.\<close>

fun mapE :: "('a \<Rightarrow> error + 'b) \<Rightarrow> 'a list \<Rightarrow> error + 'b list" where
  "mapE f [] = Inr []"
| "mapE f (x # xs) =
     (case f x of
        Inl e \<Rightarrow> Inl e
      | Inr y \<Rightarrow> (case mapE f xs of Inl e \<Rightarrow> Inl e | Inr ys \<Rightarrow> Inr (y # ys)))"

section \<open>The map of unrecognised names\<close>

text \<open>
  \<open>foundUnrecognisedEnvVars\<close> is a JavaScript \<open>Map\<close>: entries are kept in insertion order,
  and \<open>set\<close> on a key that is present replaces the value where the entry stands.
\<close>

type_synonym ('k, 'v) jsmap = "('k \<times> 'v) list"

definition Map_has :: "('k, 'v) jsmap \<Rightarrow> 'k \<Rightarrow> bool" where
  "Map_has m k = (map_of m k \<noteq> None)"

fun Map_set :: "('k, 'v) jsmap \<Rightarrow> 'k \<Rightarrow> 'v \<Rightarrow> ('k, 'v) jsmap" where
  "Map_set [] k v = [(k, v)]"
| "Map_set ((k', v') # m) k v =
     (if k' = k then (k, v) # m else (k', v') # Map_set m k v)"

section \<open>Compiling string and pattern arrays into checks\<close>

text \<open>
  \<open>_processStringOrRegexArrayInput(name, arr, stringCheck)\<close>. The template literal of the
  last error message converts the offending value to a string; that conversion is the
  parameter \<open>template\<close>.
\<close>

fun compileEntry ::
  "(jsval \<Rightarrow> string) \<Rightarrow> (string \<Rightarrow> string \<Rightarrow> bool) \<Rightarrow> jsval \<Rightarrow> error + (string \<Rightarrow> bool)" where
  "compileEntry template stringCheck (JRegExp t) = Inr (\<lambda>input. t input)"
| "compileEntry template stringCheck (JStr s) = Inr (\<lambda>input. stringCheck s input)"
| "compileEntry template stringCheck v =
     Inl (BadArgsError (''expecting '' @ template v @ '' to be [String|RegExp]''))"

definition processStringOrRegexArrayInput ::
  "(jsval \<Rightarrow> string) \<Rightarrow> string \<Rightarrow> jsval \<Rightarrow> (string \<Rightarrow> string \<Rightarrow> bool)
     \<Rightarrow> error + (string \<Rightarrow> bool) list" where
  "processStringOrRegexArrayInput template name arr stringCheck =
     (if \<not> truthy arr then Inr []
      else case arr of
        JArr xs \<Rightarrow> mapE (compileEntry template stringCheck) xs
      | _ \<Rightarrow> Inl (BadArgsError (''expected '' @ name @ '' to be String|RegExp[]'')))"

text \<open>
  The comparisons the constructor passes as \<open>stringCheck\<close>: the first for
  \<open>ignoreEnvVars\<close>, the second for \<open>includePaths\<close> and for \<open>excludePaths\<close>.
\<close>

definition ignoreCheck :: "string \<Rightarrow> string \<Rightarrow> bool" where
  "ignoreCheck check input = (check = stripProcessEnv input)"

definition pathCheck :: "string \<Rightarrow> string \<Rightarrow> bool" where
  "pathCheck check input = startsWith input check"

section \<open>The plugin instance\<close>

text \<open>
  A webpack module; the plugin reads its \<open>userRequest\<close> only, the other fields are the
  extension of the record.
\<close>

record Module =
  userRequest :: string

text \<open>
  The promise held in \<open>this.knownEnvVars\<close>: already resolved with the names, or waiting
  for the one \<open>getSecretValue\<close> request made with the given client configuration and
  parameters.
\<close>

record aws_call =
  accessKeyId :: jsval
  secretAccessKey :: jsval
  region :: jsval
  sessionToken :: "jsval option"
  SecretId :: jsval
  VersionId :: "jsval option"
  VersionStage :: "jsval option"

datatype names_promise = Resolved "string list" | Requested aws_call

record 'm ValidateEnvVarsPlugin =
  knownEnvVarsTimeout :: nat
  knownEnvVars :: names_promise
  foundUnrecognisedEnvVars :: "(string, 'm Module_scheme) jsmap"
  ignoreEnvVars :: "(string \<Rightarrow> bool) list"
  includePaths :: "(string \<Rightarrow> bool) list"
  excludePaths :: "(string \<Rightarrow> bool) list"

section \<open>The recognition decision\<close>

text \<open>
  \<open>_isRecognisedEnvVar(knownEnvVars, envVar, modulePath)\<close>. Each branch calls \<open>debug\<close> with
  its own label before it returns; the model returns the label with the result. The first
  argument, the resolved names, is written \<open>known\<close> to keep it apart from the field
  \<open>this.knownEnvVars\<close>, which holds the promise.
\<close>

definition isRecognisedEnvVar ::
  "('m, 'z) ValidateEnvVarsPlugin_scheme \<Rightarrow> string list \<Rightarrow> string \<Rightarrow> string \<Rightarrow> string \<times> bool" where
  "isRecognisedEnvVar this known envVar modulePath =
     (if envVar \<in> set known then (''in knownEnvVars'', True)
      else if Map_has (foundUnrecognisedEnvVars this) envVar
        then (''in foundUnrecognisedEnvVars'', True)
      else if \<not> list_ex (\<lambda>check. check modulePath) (includePaths this)
        then (''outside includePaths'', True)
      else if list_ex (\<lambda>check. check modulePath) (excludePaths this)
        then (''in excludePaths'', True)
      else if list_ex (\<lambda>check. check envVar) (ignoreEnvVars this)
        then (''in ignoreEnvVars'', True)
      else (''unrecognised'', False))"

text \<open>
  The body of the \<open>MemberExpression\<close> visitor of \<open>tapParser\<close> once the expression is a
  static \<open>process.env.NAME\<close>: \<open>name\<close> is the property name, \<open>module\<close> the module being parsed.
\<close>

definition MemberExpression ::
  "string list \<Rightarrow> ('m, 'z) ValidateEnvVarsPlugin_scheme \<Rightarrow> string \<times> 'm Module_scheme
     \<Rightarrow> ('m, 'z) ValidateEnvVarsPlugin_scheme" where
  "MemberExpression known this ev =
     (case ev of (name, module) \<Rightarrow>
        if \<not> snd (isRecognisedEnvVar this known name (userRequest module))
        then this\<lparr>foundUnrecognisedEnvVars := Map_set (foundUnrecognisedEnvVars this) name module\<rparr>
        else this)"

text \<open>All the accesses of one build, in the order the parser reports them.\<close>

definition scan ::
  "string list \<Rightarrow> ('m, 'z) ValidateEnvVarsPlugin_scheme \<Rightarrow> (string \<times> 'm Module_scheme) list
     \<Rightarrow> ('m, 'z) ValidateEnvVarsPlugin_scheme" where
  "scan known this evs = foldl (MemberExpression known) this evs"

text \<open>
  The \<open>afterCompile\<close> hook: one \<open>UnrecognisedEnvVarError\<close> per entry of the map, pushed
  onto \<open>compilation.errors\<close>. The fields \<open>message\<close>, \<open>name\<close> and \<open>module\<close> of the error
  carry the prefix \<open>e_\<close>.
\<close>

record 'm UnrecognisedEnvVarError =
  e_message :: string
  e_name :: string
  e_module :: "'m Module_scheme"

definition newUnrecognisedEnvVarError ::
  "string \<Rightarrow> 'm Module_scheme \<Rightarrow> 'm UnrecognisedEnvVarError" where
  "newUnrecognisedEnvVarError envVar m =
     \<lparr>e_message = ''Unrecognised environment variable: '' @ envVar,
      e_name = ''UnrecognisedEnvVarError'',
      e_module = m\<rparr>"

definition afterCompile ::
  "('m, 'z) ValidateEnvVarsPlugin_scheme \<Rightarrow> 'm UnrecognisedEnvVarError list
     \<Rightarrow> 'm UnrecognisedEnvVarError list" where
  "afterCompile this errors =
     errors @ map (\<lambda>(name, module). newUnrecognisedEnvVarError name module)
                  (foundUnrecognisedEnvVars this)"

section \<open>Resolving the known names\<close>

text \<open>
  What the plugin reaches outside its own code: the environment of the process, the file
  system, the \<open>dotenv\<close> parser, the string conversion of template literals, the secret
  service and \<open>JSON.parse\<close>. \<open>getSecretValue\<close> gives, for a request, the time in
  milliseconds (counted from the start of the \<open>beforeCompile\<close> hook) at which its callback
  runs, with the error or the \<open>SecretString\<close> of the data (absent for a binary secret);
  \<open>None\<close> when the callback never runs.
\<close>

record host =
  process_env :: "(string \<times> string) list"
  existsSync :: "string \<Rightarrow> bool"
  readFileSync :: "string \<Rightarrow> error + string"
  dotenv_parse :: "string \<Rightarrow> (string \<times> string) list"
  template :: "jsval \<Rightarrow> string"
  getSecretValue :: "aws_call \<Rightarrow> (nat \<times> (error + string option)) option"
  JSON_parse :: "string \<Rightarrow> error + jsval"

definition PLUGIN_NAME :: string where
  "PLUGIN_NAME = ''ValidateEnvVars''"

fun typeof :: "jsval \<Rightarrow> string" where
  "typeof JUndefined = ''undefined''"
| "typeof JNull = ''object''"
| "typeof (JBool b) = ''boolean''"
| "typeof (JNum n) = ''number''"
| "typeof (JStr s) = ''string''"
| "typeof (JRegExp t) = ''object''"
| "typeof (JArr xs) = ''object''"
| "typeof (JObj kvs) = ''object''"

fun Array_isArray :: "jsval \<Rightarrow> bool" where
  "Array_isArray (JArr xs) = True"
| "Array_isArray v = False"

text \<open>Decimal digits of an array index, for the keys of an array or a string.\<close>

fun showNat :: "nat \<Rightarrow> string" where
  "showNat n =
     (if n < 10 then [char_of (48 + n)]
      else showNat (n div 10) @ [char_of (48 + n mod 10)])"

declare showNat.simps [simp del]

fun Object_keys :: "jsval \<Rightarrow> error + string list" where
  "Object_keys JUndefined =
     Inl (JSError ''TypeError'' ''Cannot convert undefined or null to object'')"
| "Object_keys JNull =
     Inl (JSError ''TypeError'' ''Cannot convert undefined or null to object'')"
| "Object_keys (JObj kvs) = Inr (map fst kvs)"
| "Object_keys (JArr xs) = Inr (map showNat [0..<length xs])"
| "Object_keys (JStr s) = Inr (map showNat [0..<length s])"
| "Object_keys v = Inr []"

text \<open>\<open>input[k]\<close> on a value that is neither \<open>undefined\<close> nor \<open>null\<close>, for the option names.\<close>

fun getProp :: "jsval \<Rightarrow> string \<Rightarrow> jsval" where
  "getProp (JObj kvs) k = (case map_of kvs k of None \<Rightarrow> JUndefined | Some v \<Rightarrow> v)"
| "getProp v k = JUndefined"

definition hasPartialProperties :: "string list \<Rightarrow> string list \<Rightarrow> bool" where
  "hasPartialProperties objKeys properties = list_ex (\<lambda>k. k \<in> set properties) objKeys"

definition hasAllProperties :: "string list \<Rightarrow> string list \<Rightarrow> bool" where
  "hasAllProperties objKeys properties = list_all (\<lambda>k. k \<in> set objKeys) properties"

fun join :: "string \<Rightarrow> string list \<Rightarrow> string" where
  "join sep [] = []"
| "join sep [x] = x"
| "join sep (x # y # ys) = x @ sep @ join sep (y # ys)"

definition quoted :: "string \<Rightarrow> string" where
  "quoted v = [CHR 0x27] @ v @ [CHR 0x27]"

definition toQuotedStringList :: "string list \<Rightarrow> string" where
  "toQuotedStringList arr = join '', '' (map quoted arr)"

text \<open>The test of \<open>find\<close>: the field is not a string, or it is the empty string.\<close>

fun withoutLength :: "jsval \<Rightarrow> bool" where
  "withoutLength (JStr s) = (length s = 0)"
| "withoutLength v = True"

text \<open>
  \<open>createExternalSourceCheck(sourceName, sourceRequiredInputProperties)\<close> applied to
  \<open>input\<close>. \<open>Object.keys\<close> throws on \<open>null\<close>, whose \<open>typeof\<close> is \<open>object\<close>.
\<close>

definition createExternalSourceCheck :: "string \<Rightarrow> string list \<Rightarrow> jsval \<Rightarrow> error + bool" where
  "createExternalSourceCheck sourceName sourceRequiredInputProperties input =
     (if Array_isArray input then Inr False
      else if typeof input \<noteq> ''object'' then Inr False
      else
        let requiredPropsList = toQuotedStringList sourceRequiredInputProperties in
        case Object_keys input of
          Inl e \<Rightarrow> Inl e
        | Inr objKeys \<Rightarrow>
            if hasAllProperties objKeys sourceRequiredInputProperties then
              (case find (\<lambda>k. withoutLength (getProp input k)) sourceRequiredInputProperties of
                 Some stringFieldWithoutLength \<Rightarrow>
                   if stringFieldWithoutLength \<noteq> [] then
                     Inl (BadArgsError (''bad '' @ sourceName
                            @ '' source configuration (missing value for property ''
                            @ quoted stringFieldWithoutLength @ '')''))
                   else Inr True
               | None \<Rightarrow> Inr True)
            else if hasPartialProperties objKeys sourceRequiredInputProperties then
              Inl (BadArgsError (''bad '' @ sourceName
                     @ '' source configuration (requires properties: ''
                     @ requiredPropsList @ '')''))
            else Inr False)"

definition requiredProperties :: "string list" where
  "requiredProperties = [''region'', ''secretId'', ''secretAccessKey'', ''accessKeyId'']"

definition isAWSSecretsManagerSource :: "jsval \<Rightarrow> error + bool" where
  "isAWSSecretsManagerSource =
     createExternalSourceCheck ''AWS SecretsManager'' requiredProperties"

text \<open>
  \<open>getAWSSecretsManagerEnvVarNames(sourceOptions)\<close>: the client configuration and the
  request parameters; an optional field is passed on only when it is truthy.
\<close>

definition whenTruthy :: "jsval \<Rightarrow> jsval option" where
  "whenTruthy v = (if truthy v then Some v else None)"

definition getAWSSecretsManagerEnvVarNames :: "jsval \<Rightarrow> names_promise" where
  "getAWSSecretsManagerEnvVarNames sourceOptions =
     Requested
       \<lparr>accessKeyId = getProp sourceOptions ''accessKeyId'',
        secretAccessKey = getProp sourceOptions ''secretAccessKey'',
        region = getProp sourceOptions ''region'',
        sessionToken = whenTruthy (getProp sourceOptions ''sessionToken''),
        SecretId = getProp sourceOptions ''secretId'',
        VersionId = whenTruthy (getProp sourceOptions ''secretVersionId''),
        VersionStage = whenTruthy (getProp sourceOptions ''secretVersionStage'')\<rparr>"

text \<open>The callback of \<open>knownEnvVars.map\<close> for an array source.\<close>

fun envVarName :: "jsval \<Rightarrow> error + string" where
  "envVarName (JStr name) = Inr (stripProcessEnv name)"
| "envVarName v =
     Inl (BadArgsError
       ''bad env vars source configuration (got array, but expected all elements to be string)'')"

text \<open>
  \<open>_processKnownEnvVars(knownEnvVars)\<close>: \<open>Inl\<close> is an error thrown while the constructor
  runs, \<open>Inr\<close> the promise it stores. The argument is written \<open>knownEnvVarsArg\<close>, after
  its documented type, to keep it apart from the field \<open>this.knownEnvVars\<close>.
\<close>

definition processKnownEnvVars :: "host \<Rightarrow> jsval \<Rightarrow> error + names_promise" where
  "processKnownEnvVars h knownEnvVarsArg =
     (if \<not> truthy knownEnvVarsArg then Inr (Resolved (map fst (process_env h)))
      else case knownEnvVarsArg of
        JArr names \<Rightarrow>
          (case mapE envVarName names of
             Inl e \<Rightarrow> Inl e
           | Inr envVarNames \<Rightarrow> Inr (Resolved envVarNames))
      | JStr envFilePath \<Rightarrow>
          if \<not> existsSync h envFilePath then
            Inl (BadArgsError
              ''bad env vars source configuration (got string, but no file exists at path)'')
          else
            (case readFileSync h envFilePath of
               Inl e \<Rightarrow> Inl e
             | Inr buffer \<Rightarrow> Inr (Resolved (map fst (dotenv_parse h buffer))))
      | _ \<Rightarrow>
          (case isAWSSecretsManagerSource knownEnvVarsArg of
             Inl e \<Rightarrow> Inl e
           | Inr True \<Rightarrow> Inr (getAWSSecretsManagerEnvVarNames knownEnvVarsArg)
           | Inr False \<Rightarrow>
               Inl (BadArgsError ''bad env vars source configuration (refer to documentation)'')))"

section \<open>Construction\<close>

text \<open>
  \<open>constructor(options = {})\<close>: the default replaces \<open>undefined\<close> only, so reading a
  property of \<open>null\<close> throws. The fields are set in the order of the source; the first
  throw ends the construction (\<open>bindE\<close> passes a thrown error on).
\<close>

definition bindE :: "error + 'a \<Rightarrow> ('a \<Rightarrow> error + 'b) \<Rightarrow> error + 'b" where
  "bindE r f = (case r of Inl e \<Rightarrow> Inl e | Inr v \<Rightarrow> f v)"

definition withDefault :: "jsval \<Rightarrow> jsval" where
  "withDefault optionsArg = (case optionsArg of JUndefined \<Rightarrow> JObj [] | v \<Rightarrow> v)"

definition construct :: "host \<Rightarrow> jsval \<Rightarrow> error + 'm ValidateEnvVarsPlugin" where
  "construct h options =
     bindE (processKnownEnvVars h (getProp options ''knownEnvVars'')) (\<lambda>promise.
     bindE (processStringOrRegexArrayInput (template h) ''ignoreEnvVars''
              (getProp options ''ignoreEnvVars'') ignoreCheck) (\<lambda>ignore.
     bindE (processStringOrRegexArrayInput (template h) ''includePaths''
              (getProp options ''includePaths'') pathCheck) (\<lambda>include.
     bindE (processStringOrRegexArrayInput (template h) ''excludePaths''
              (getProp options ''excludePaths'') pathCheck) (\<lambda>exclude.
       Inr \<lparr>knownEnvVarsTimeout = 5000,
            knownEnvVars = promise,
            foundUnrecognisedEnvVars = [],
            ignoreEnvVars = ignore,
            includePaths = include,
            excludePaths = exclude\<rparr>))))"

definition "constructor" :: "host \<Rightarrow> jsval \<Rightarrow> error + 'm ValidateEnvVarsPlugin" where
  "constructor h optionsArg =
     (case withDefault optionsArg of
        JNull \<Rightarrow>
          Inl (JSError ''TypeError''
                 (''Cannot read property '' @ quoted ''knownEnvVars'' @ '' of null''))
      | options \<Rightarrow> construct h options)"

section \<open>The gate before compilation\<close>

text \<open>
  How the promise in \<open>this.knownEnvVars\<close> settles: fulfilled or rejected at a time in
  milliseconds counted from the start of the \<open>beforeCompile\<close> hook, or never. A promise made
  by \<open>Promise.resolve\<close> is fulfilled from the start.
\<close>

datatype settlement = Fulfilled nat "string list" | Rejected nat error | Never

text \<open>
  The callback given to \<open>getSecretValue\<close>. \<open>JSON.parse\<close> converts its argument to a
  string, so an absent \<open>SecretString\<close> is parsed as the text \<open>undefined\<close>. An error thrown
  inside \<open>try\<close> gets the plugin's prefix on its message and rejects the promise.
\<close>

definition failedParsing :: "error \<Rightarrow> error" where
  "failedParsing err =
     JSError (ename err) (PLUGIN_NAME @ '' failed parsing SecretString: '' @ emessage err)"

definition secretCallback :: "host \<Rightarrow> nat \<Rightarrow> error + string option \<Rightarrow> settlement" where
  "secretCallback h t response =
     (case response of
        Inl err \<Rightarrow> Rejected t err
      | Inr secretString \<Rightarrow>
          (case JSON_parse h (case secretString of None \<Rightarrow> ''undefined'' | Some s \<Rightarrow> s) of
             Inl err \<Rightarrow> Rejected t (failedParsing err)
           | Inr parsed \<Rightarrow>
               (case Object_keys parsed of
                  Inl err \<Rightarrow> Rejected t (failedParsing err)
                | Inr keys \<Rightarrow> Fulfilled t keys)))"

definition settle :: "host \<Rightarrow> names_promise \<Rightarrow> settlement" where
  "settle h promise =
     (case promise of
        Resolved envVars \<Rightarrow> Fulfilled 0 envVars
      | Requested call \<Rightarrow>
          (case getSecretValue h call of
             None \<Rightarrow> Never
           | Some (t, response) \<Rightarrow> secretCallback h t response))"

text \<open>
  The promise handed to webpack by the \<open>beforeCompile\<close> tap is built with \<open>resolve\<close> alone.
  The state it ends in, the value of the variable \<open>knownEnvVars\<close> of \<open>apply\<close>, the error
  thrown out of the timer callback, and the rejection of the chain
  \<open>then/catch/finally\<close> that nothing handles.
\<close>

datatype hook_state = HookFulfilled | HookRejected error | HookPending

record gate =
  hook :: hook_state
  resolvedEnvVars :: "string list option"
  thrownByTimer :: "error option"
  unhandledRejection :: "error option"

definition bail :: gate where
  "bail =
     \<lparr>hook = HookPending,
      resolvedEnvVars = None,
      thrownByTimer = Some (JSError ''Error'' (PLUGIN_NAME @ '' timed out resolving known env vars'')),
      unhandledRejection = None\<rparr>"

text \<open>
  The timer is set for \<open>this.knownEnvVarsTimeout\<close> milliseconds and cleared in \<open>finally\<close>,
  that is once the promise has settled either way. A settlement before the timer is due
  wins; the timer callback throws, which ends the process, so nothing that settles later
  is seen.
\<close>

definition beforeCompile :: "host \<Rightarrow> ('m, 'z) ValidateEnvVarsPlugin_scheme \<Rightarrow> gate" where
  "beforeCompile h this =
     (case settle h (knownEnvVars this) of
        Fulfilled t envVars \<Rightarrow>
          if t < knownEnvVarsTimeout this then
            \<lparr>hook = HookFulfilled, resolvedEnvVars = Some envVars,
             thrownByTimer = None, unhandledRejection = None\<rparr>
          else bail
      | Rejected t err \<Rightarrow>
          if t < knownEnvVarsTimeout this then
            \<lparr>hook = HookPending, resolvedEnvVars = None,
             thrownByTimer = None, unhandledRejection = Some err\<rparr>
          else bail
      | Never \<Rightarrow> bail)"

text \<open>
  One build: webpack parses modules only after the \<open>beforeCompile\<close> promise is fulfilled,
  and runs \<open>afterCompile\<close> after parsing. \<open>None\<close> when compilation never starts.
\<close>

definition build ::
  "host \<Rightarrow> ('m, 'z) ValidateEnvVarsPlugin_scheme \<Rightarrow> (string \<times> 'm Module_scheme) list
     \<Rightarrow> 'm UnrecognisedEnvVarError list option" where
  "build h this evs =
     (case hook (beforeCompile h this) of
        HookFulfilled \<Rightarrow>
          (case resolvedEnvVars (beforeCompile h this) of
             Some envVars \<Rightarrow> Some (afterCompile (scan envVars this evs) [])
           | None \<Rightarrow> None)
      | _ \<Rightarrow> None)"

section \<open>Notions used to state the properties\<close>

text \<open>
  The branches of the recognition decision in the order of the source, the label each one
  logs, and the condition each one tests.
\<close>

datatype rule = InKnown | InFound | OutsideInclude | InExclude | InIgnore | Otherwise

fun ruleIndex :: "rule \<Rightarrow> nat" where
  "ruleIndex InKnown = 1"
| "ruleIndex InFound = 2"
| "ruleIndex OutsideInclude = 3"
| "ruleIndex InExclude = 4"
| "ruleIndex InIgnore = 5"
| "ruleIndex Otherwise = 6"

fun ruleLabel :: "rule \<Rightarrow> string" where
  "ruleLabel InKnown = ''in knownEnvVars''"
| "ruleLabel InFound = ''in foundUnrecognisedEnvVars''"
| "ruleLabel OutsideInclude = ''outside includePaths''"
| "ruleLabel InExclude = ''in excludePaths''"
| "ruleLabel InIgnore = ''in ignoreEnvVars''"
| "ruleLabel Otherwise = ''unrecognised''"

fun ruleHolds ::
  "('m, 'z) ValidateEnvVarsPlugin_scheme \<Rightarrow> string list \<Rightarrow> string \<Rightarrow> string \<Rightarrow> rule \<Rightarrow> bool" where
  "ruleHolds this known envVar modulePath InKnown = (envVar \<in> set known)"
| "ruleHolds this known envVar modulePath InFound =
     (envVar \<in> fst ` set (foundUnrecognisedEnvVars this))"
| "ruleHolds this known envVar modulePath OutsideInclude =
     (\<not> list_ex (\<lambda>check. check modulePath) (includePaths this))"
| "ruleHolds this known envVar modulePath InExclude =
     list_ex (\<lambda>check. check modulePath) (excludePaths this)"
| "ruleHolds this known envVar modulePath InIgnore =
     list_ex (\<lambda>check. check envVar) (ignoreEnvVars this)"
| "ruleHolds this known envVar modulePath Otherwise = True"

text \<open>
  The conditions as the specification words them: its third rule asks in addition that
  \<open>includePaths\<close> is not empty.
\<close>

fun claimedHolds ::
  "('m, 'z) ValidateEnvVarsPlugin_scheme \<Rightarrow> string list \<Rightarrow> string \<Rightarrow> string \<Rightarrow> rule \<Rightarrow> bool" where
  "claimedHolds this known envVar modulePath OutsideInclude =
     (includePaths this \<noteq> [] \<and> \<not> list_ex (\<lambda>check. check modulePath) (includePaths this))"
| "claimedHolds this known envVar modulePath r = ruleHolds this known envVar modulePath r"

text \<open>
  An access that only the record of names already found can keep from being reported: the
  name is not known, the module is inside the included paths and outside the excluded
  ones, and the name is not ignored.
\<close>

definition reportable ::
  "('m, 'z) ValidateEnvVarsPlugin_scheme \<Rightarrow> string list \<Rightarrow> string \<times> 'm Module_scheme \<Rightarrow> bool" where
  "reportable this known ev =
     (fst ev \<notin> set known
      \<and> list_ex (\<lambda>check. check (userRequest (snd ev))) (includePaths this)
      \<and> \<not> list_ex (\<lambda>check. check (userRequest (snd ev))) (excludePaths this)
      \<and> \<not> list_ex (\<lambda>check. check (fst ev)) (ignoreEnvVars this))"

text \<open>The diagnostics of a build that are about a given name.\<close>

definition diagnosticsFor ::
  "string \<Rightarrow> 'm UnrecognisedEnvVarError list \<Rightarrow> 'm UnrecognisedEnvVarError list" where
  "diagnosticsFor envVar errors =
     filter (\<lambda>e. e_message e = ''Unrecognised environment variable: '' @ envVar) errors"

text \<open>A message names a field when it holds the field between single quotes.\<close>

fun contains :: "string \<Rightarrow> string \<Rightarrow> bool" where
  "contains [] sub = (sub = [])"
| "contains (c # cs) sub = (startsWith (c # cs) sub \<or> contains cs sub)"

definition namesField :: "error \<Rightarrow> string \<Rightarrow> bool" where
  "namesField err field = contains (emessage err) (quoted field)"

text \<open>
  Modelled from the spec: the parser of the \<open>dotenv\<close> package is not among the sources.
  The specification describes the file as line-based \<open>KEY=VALUE\<close> text whose keys are the
  result: the content is cut at line feeds, and a line with an equals sign gives the key
  before the first one and the value after it. First, the lines of a text.
\<close>

fun splitLines :: "string \<Rightarrow> string list" where
  "splitLines [] = [[]]"
| "splitLines (c # cs) =
     (if c = CHR 0x0A then [] # splitLines cs
      else (case splitLines cs of [] \<Rightarrow> [[c]] | l # ls \<Rightarrow> (c # l) # ls))"

text \<open>
  Modelled from the spec: one line of \<open>KEY=VALUE\<close> text, cut at its first equals sign;
  part of the stand-in for the \<open>dotenv\<close> parser, which is not among the sources.
\<close>

fun keyValue :: "string \<Rightarrow> (string \<times> string) option" where
  "keyValue [] = None"
| "keyValue (c # cs) =
     (if c = CHR ''='' then Some ([], cs)
      else (case keyValue cs of None \<Rightarrow> None | Some (k, v) \<Rightarrow> Some (c # k, v)))"

text \<open>
  Modelled from the spec: the stand-in for \<open>dotenv.parse\<close>, which is not among the
  sources: the keys and values of the lines that have an equals sign, in their order.
\<close>

definition dotenvLines :: "string \<Rightarrow> (string \<times> string) list" where
  "dotenvLines content = List.map_filter keyValue (splitLines content)"

section \<open>Example configurations\<close>

text \<open>
  A host with one variable in its environment and one file, \<open>/app/.env\<close>, of two lines,
  in the directory \<open>/app\<close>; the secret service answers after three seconds with a JSON
  object of one key.
\<close>

definition envFile :: string where
  "envFile = ''A=1'' @ [CHR 0x0A] @ ''B=2''"

definition secretText :: string where
  "secretText = ''{'' @ [CHR 0x22] @ ''A'' @ [CHR 0x22] @ '':1}''"

definition isDirectory :: error where
  "isDirectory = JSError ''Error'' ''EISDIR: illegal operation on a directory, read''"

definition exampleHost :: host where
  "exampleHost =
     \<lparr>process_env = [(''HOME'', ''/root'')],
      existsSync = (\<lambda>path. path = ''/app/.env'' \<or> path = ''/app''),
      readFileSync = (\<lambda>path. if path = ''/app/.env'' then Inr envFile
                             else if path = ''/app'' then Inl isDirectory
                             else Inl (JSError ''Error'' ''ENOENT: no such file or directory'')),
      dotenv_parse = dotenvLines,
      template = (\<lambda>v. ''[object Object]''),
      getSecretValue = (\<lambda>call. Some (3000, Inr (Some secretText))),
      JSON_parse = (\<lambda>text. if text = secretText then Inr (JObj [(''A'', JNum 1)])
                            else Inl (JSError ''SyntaxError'' ''Unexpected token''))\<rparr>"

text \<open>The same host with a secret service that refuses the request after 100 ms.\<close>

definition accessDenied :: error where
  "accessDenied = JSError ''AccessDeniedException'' ''not authorized to perform GetSecretValue''"

definition refusingHost :: host where
  "refusingHost = exampleHost\<lparr>getSecretValue := (\<lambda>call. Some (100, Inl accessDenied))\<rparr>"

definition fullDescriptor :: jsval where
  "fullDescriptor =
     JObj [(''secretId'', JStr ''api-env-vars''), (''accessKeyId'', JStr ''AKIAEXAMPLE''),
           (''secretAccessKey'', JStr ''s3cr3t''), (''region'', JStr ''eu-west-1'')]"

definition partialDescriptor :: jsval where
  "partialDescriptor = JObj [(''region'', JStr ''eu-west-1''), (''secretId'', JStr ''api-env-vars'')]"

definition emptyKeyDescriptor :: jsval where
  "emptyKeyDescriptor =
     JObj [(''secretId'', JStr ''api-env-vars''), (''accessKeyId'', JStr []),
           (''secretAccessKey'', JNum 7), (''region'', JStr ''eu-west-1'')]"

text \<open>The instance built from \<open>{knownEnvVars: []}\<close>: every list of checks is empty.\<close>

definition unconfigured :: "unit ValidateEnvVarsPlugin" where
  "unconfigured =
     \<lparr>knownEnvVarsTimeout = 5000, knownEnvVars = Resolved [], foundUnrecognisedEnvVars = [],
      ignoreEnvVars = [], includePaths = [], excludePaths = []\<rparr>"

definition srcModule :: "string \<Rightarrow> Module" where
  "srcModule file = \<lparr>userRequest = ''/src/'' @ file\<rparr>"

text \<open>
  The instance built on the example host from a file source with one included path, one
  excluded path and one ignored name.
\<close>

definition srcOptions :: jsval where
  "srcOptions =
     JObj [(''knownEnvVars'', JStr ''/app/.env''),
           (''includePaths'', JArr [JStr ''/src'']),
           (''excludePaths'', JArr [JStr ''/src/gen'']),
           (''ignoreEnvVars'', JArr [JStr ''FOO''])]"

definition srcPlugin :: "unit ValidateEnvVarsPlugin" where
  "srcPlugin =
     \<lparr>knownEnvVarsTimeout = 5000, knownEnvVars = Resolved [''A'', ''B''],
      foundUnrecognisedEnvVars = [],
      ignoreEnvVars = [ignoreCheck ''FOO''],
      includePaths = [pathCheck ''/src''],
      excludePaths = [pathCheck ''/src/gen'']\<rparr>"

text \<open>The messages of the errors thrown for a source that is not accepted.\<close>

definition notAllStrings :: error where
  "notAllStrings = BadArgsError
     ''bad env vars source configuration (got array, but expected all elements to be string)''"

definition noFileAtPath :: error where
  "noFileAtPath = BadArgsError
     ''bad env vars source configuration (got string, but no file exists at path)''"

definition requiresAll :: error where
  "requiresAll = BadArgsError
     (''bad AWS SecretsManager source configuration (requires properties: ''
        @ quoted ''region'' @ '', '' @ quoted ''secretId'' @ '', '' @ quoted ''secretAccessKey''
        @ '', '' @ quoted ''accessKeyId'' @ '')'')"

definition missingValue :: "string \<Rightarrow> error" where
  "missingValue field = BadArgsError
     (''bad AWS SecretsManager source configuration (missing value for property ''
        @ quoted field @ '')'')"

text \<open>
  Options that ask for a timeout of two seconds, under the documented name and under the
  name the specification uses, with a secret as the source; and the instance built from
  them.
\<close>

definition hastyOptions :: jsval where
  "hastyOptions =
     JObj [(''knownEnvVars'', fullDescriptor),
           (''knownEnvVarsTimeout'', JNum 2000),
           (''knownEnvVarsTimeoutMs'', JNum 2000),
           (''includePaths'', JArr [JStr ''/src''])]"

definition hastyPlugin :: "unit ValidateEnvVarsPlugin" where
  "hastyPlugin =
     \<lparr>knownEnvVarsTimeout = 5000,
      knownEnvVars = Requested
        \<lparr>accessKeyId = JStr ''AKIAEXAMPLE'', secretAccessKey = JStr ''s3cr3t'',
         region = JStr ''eu-west-1'', sessionToken = None, SecretId = JStr ''api-env-vars'',
         VersionId = None, VersionStage = None\<rparr>,
      foundUnrecognisedEnvVars = [],
      ignoreEnvVars = [],
      includePaths = [pathCheck ''/src''],
      excludePaths = []\<rparr>"

text \<open>The example host with a secret whose text is not JSON.\<close>

definition unexpectedToken :: error where
  "unexpectedToken = JSError ''SyntaxError'' ''Unexpected token h in JSON at position 0''"

definition garbledHost :: host where
  "garbledHost = exampleHost\<lparr>JSON_parse := (\<lambda>text. Inl unexpectedToken)\<rparr>"

section \<open>Auxiliary facts\<close>

subsection \<open>Strings\<close>

lemma startsWith_iff: "startsWith input check \<longleftrightarrow> (\<exists>rest. input = check @ rest)"
  by (induction input check rule: startsWith.induct) auto

lemma stripProcessEnv_qualified: "stripProcessEnv (''process.env.'' @ s) = s"
  by (simp add: stripProcessEnv_def)

lemma stripProcessEnv_other: "\<not> startsWith s ''process.env.'' \<Longrightarrow> stripProcessEnv s = s"
  by (simp add: stripProcessEnv_def)

subsection \<open>The map of unrecognised names\<close>

lemma Map_has_iff: "Map_has m k \<longleftrightarrow> k \<in> fst ` set m"
  by (simp add: Map_has_def map_of_eq_None_iff)

lemma Map_set_absent: "k \<notin> fst ` set m \<Longrightarrow> Map_set m k v = m @ [(k, v)]"
  by (induction m) auto

lemma map_of_Some_key: "map_of m k = Some v \<Longrightarrow> k \<in> fst ` set m"
  by (metis map_of_eq_None_iff option.distinct(1))

lemma filter_key_distinct:
  "distinct (map fst kvs) \<Longrightarrow>
   filter (\<lambda>kv. fst kv = n) kvs = (case map_of kvs n of None \<Rightarrow> [] | Some v \<Rightarrow> [(n, v)])"
proof (induction kvs)
  case Nil
  then show ?case by simp
next
  case (Cons kv kvs)
  obtain k v where kv: "kv = (k, v)" by (cases kv)
  have "k \<noteq> n \<or> filter (\<lambda>kv. fst kv = n) kvs = []"
    using Cons.prems kv by (auto simp add: filter_empty_conv image_iff)
  then show ?case using Cons kv by (auto split: option.splits)
qed

subsection \<open>The decision and one access\<close>

lemma all_rules:
  "(\<forall>r. P r) =
     (P InKnown \<and> P InFound \<and> P OutsideInclude \<and> P InExclude \<and> P InIgnore \<and> P Otherwise)"
  by (metis rule.exhaust)

lemma label_first_match:
  "(fst (isRecognisedEnvVar this known envVar modulePath) = ruleLabel r) =
     (ruleHolds this known envVar modulePath r \<and>
      (\<forall>r'. ruleIndex r' < ruleIndex r \<longrightarrow> \<not> ruleHolds this known envVar modulePath r'))"
  by (cases r) (auto simp add: isRecognisedEnvVar_def Map_has_iff all_rules)

lemma result_iff_label:
  "snd (isRecognisedEnvVar this known envVar modulePath) =
     (fst (isRecognisedEnvVar this known envVar modulePath) \<noteq> ruleLabel Otherwise)"
  by (simp add: isRecognisedEnvVar_def)

lemma visit_found:
  "foundUnrecognisedEnvVars (MemberExpression known this (n, m)) =
     (if snd (isRecognisedEnvVar this known n (userRequest m))
      then foundUnrecognisedEnvVars this
      else foundUnrecognisedEnvVars this @ [(n, m)])"
  by (auto simp add: MemberExpression_def isRecognisedEnvVar_def Map_has_iff Map_set_absent split: if_splits)

lemma recognised_iff:
  "snd (isRecognisedEnvVar this known n (userRequest m)) =
     (n \<in> fst ` set (foundUnrecognisedEnvVars this) \<or> \<not> reportable this known (n, m))"
  by (auto simp add: isRecognisedEnvVar_def reportable_def Map_has_iff)

lemma visit_checks [simp]:
  "includePaths (MemberExpression known this ev) = includePaths this"
  "excludePaths (MemberExpression known this ev) = excludePaths this"
  "ignoreEnvVars (MemberExpression known this ev) = ignoreEnvVars this"
  by (cases ev; simp add: MemberExpression_def)+

lemma reportable_visit [simp]: "reportable (MemberExpression known this ev) known = reportable this known"
  by (simp add: fun_eq_iff reportable_def)

lemma visit_found_reportable:
  "foundUnrecognisedEnvVars (MemberExpression known this ev) =
     (if fst ev \<in> fst ` set (foundUnrecognisedEnvVars this) \<or> \<not> reportable this known ev
      then foundUnrecognisedEnvVars this
      else foundUnrecognisedEnvVars this @ [ev])"
  by (cases ev) (simp add: visit_found recognised_iff)

subsection \<open>All the accesses of a build\<close>

lemma scan_Nil [simp]: "scan known this [] = this"
  by (simp add: scan_def)

lemma scan_Cons [simp]: "scan known this (ev # evs) = scan known (MemberExpression known this ev) evs"
  by (simp add: scan_def)

lemma scan_distinct:
  "distinct (map fst (foundUnrecognisedEnvVars this)) \<Longrightarrow>
   distinct (map fst (foundUnrecognisedEnvVars (scan known this evs)))"
proof (induction evs arbitrary: this)
  case Nil
  then show ?case by simp
next
  case (Cons ev evs)
  have "distinct (map fst (foundUnrecognisedEnvVars (MemberExpression known this ev)))"
    using Cons.prems by (simp add: visit_found_reportable)
  from Cons.IH [OF this] show ?case by simp
qed

lemma scan_map_of:
  "map_of (foundUnrecognisedEnvVars (scan known this evs)) n =
     (case map_of (foundUnrecognisedEnvVars this) n of
        Some m \<Rightarrow> Some m
      | None \<Rightarrow> map_option snd (find (\<lambda>ev. fst ev = n \<and> reportable this known ev) evs))"
proof (induction evs arbitrary: this)
  case Nil
  then show ?case by (simp split: option.splits)
next
  case (Cons ev evs)
  obtain k m where ev: "ev = (k, m)" by (cases ev)
  show ?case
    unfolding scan_Cons Cons.IH reportable_visit
    by (auto simp add: visit_found_reportable ev map_of_eq_None_iff split: option.splits
          dest: map_of_Some_key)
qed

lemma diagnosticsFor_afterCompile:
  "diagnosticsFor n (afterCompile this []) =
     map (\<lambda>(name, module). newUnrecognisedEnvVarError name module)
         (filter (\<lambda>kv. fst kv = n) (foundUnrecognisedEnvVars this))"
  by (simp add: diagnosticsFor_def afterCompile_def filter_map comp_def
        newUnrecognisedEnvVarError_def case_prod_unfold)

lemma diagnosticsFor_scan:
  assumes "foundUnrecognisedEnvVars this = []"
  shows "diagnosticsFor n (afterCompile (scan known this evs) []) =
           (case find (\<lambda>ev. fst ev = n \<and> reportable this known ev) evs of
              None \<Rightarrow> []
            | Some ev \<Rightarrow> [newUnrecognisedEnvVarError n (snd ev)])"
proof -
  have d: "distinct (map fst (foundUnrecognisedEnvVars (scan known this evs)))"
    using assms by (intro scan_distinct) simp
  show ?thesis
    unfolding diagnosticsFor_afterCompile filter_key_distinct [OF d] scan_map_of
    by (simp add: assms split: option.splits)
qed

lemma scan_unchanged:
  "includePaths this = [] \<Longrightarrow> scan known this evs = this"
proof (induction evs)
  case Nil
  then show ?case by simp
next
  case (Cons ev evs)
  have "MemberExpression known this ev = this"
    using Cons.prems by (cases ev) (simp add: MemberExpression_def isRecognisedEnvVar_def)
  with Cons show ?case by simp
qed

subsection \<open>Construction\<close>

lemma bindE_Inr: "bindE r f = Inr y \<longleftrightarrow> (\<exists>v. r = Inr v \<and> f v = Inr y)"
  by (cases r) (simp_all add: bindE_def)

lemma construct_fields:
  assumes "construct h options = Inr this"
  shows "knownEnvVarsTimeout this = 5000"
    and "foundUnrecognisedEnvVars this = []"
    and "processKnownEnvVars h (getProp options ''knownEnvVars'') = Inr (knownEnvVars this)"
    and "processStringOrRegexArrayInput (template h) ''ignoreEnvVars''
           (getProp options ''ignoreEnvVars'') ignoreCheck = Inr (ignoreEnvVars this)"
    and "processStringOrRegexArrayInput (template h) ''includePaths''
           (getProp options ''includePaths'') pathCheck = Inr (includePaths this)"
    and "processStringOrRegexArrayInput (template h) ''excludePaths''
           (getProp options ''excludePaths'') pathCheck = Inr (excludePaths this)"
  using assms unfolding construct_def bindE_Inr by auto

lemma constructor_construct:
  "constructor h options = Inr this \<Longrightarrow> construct h (withDefault options) = Inr this"
  by (cases "withDefault options") (simp_all add: constructor_def)

lemma processStringOrRegexArrayInput_empty:
  "\<not> truthy arr \<or> arr = JArr [] \<Longrightarrow> processStringOrRegexArrayInput t n arr c = Inr []"
  by (auto simp add: processStringOrRegexArrayInput_def)

lemma ignoreCheck_qualified:
  assumes "startsWith literal ''process.env.''"
  shows "ignoreCheck literal input \<longleftrightarrow> input = ''process.env.'' @ literal"
proof (cases "startsWith input ''process.env.''")
  case True
  then obtain rest where "input = ''process.env.'' @ rest"
    unfolding startsWith_iff by blast
  then show ?thesis
    by (auto simp add: ignoreCheck_def stripProcessEnv_qualified simp del: append.simps)
next
  case False
  have "literal \<noteq> input" using assms False by auto
  moreover have "input \<noteq> ''process.env.'' @ literal"
    using False unfolding startsWith_iff by blast
  ultimately show ?thesis
    using False by (simp add: ignoreCheck_def stripProcessEnv_other)
qed

lemma constructor_source_error:
  assumes "getProp (withDefault options) ''knownEnvVars'' = v"
    and "processKnownEnvVars h v = Inl e"
  shows "constructor h options = Inl e"
proof (cases "withDefault options")
  case JNull
  then have "v = JUndefined" using assms(1) by simp
  then show ?thesis using assms(2) by (simp add: processKnownEnvVars_def)
qed (use assms in \<open>simp_all add: constructor_def construct_def bindE_def\<close>)

lemma constructor_timeout:
  "constructor h options = Inr this \<Longrightarrow> knownEnvVarsTimeout this = 5000"
  using construct_fields(1) [OF constructor_construct] .

subsection \<open>Properties of the sources of the known names\<close>

lemma mapE_envVarName_strings:
  "mapE envVarName (map JStr ss) = Inr (map stripProcessEnv ss)"
  by (induction ss) simp_all

lemma envVarName_not_string:
  "(\<nexists>s. x = JStr s) \<Longrightarrow> envVarName x = Inl notAllStrings"
  by (cases x) (simp_all add: notAllStrings_def)

lemma mapE_envVarName_not_string:
  "x \<in> set xs \<Longrightarrow> (\<nexists>s. x = JStr s) \<Longrightarrow> mapE envVarName xs = Inl notAllStrings"
proof (induction xs)
  case Nil
  then show ?case by simp
next
  case (Cons y ys)
  show ?case
  proof (cases "\<exists>s. y = JStr s")
    case True
    then obtain s where y: "y = JStr s" by blast
    with Cons.prems have "x \<in> set ys" by auto
    from Cons.IH [OF this Cons.prems(2)] y show ?thesis by simp
  next
    case False
    then show ?thesis using envVarName_not_string [of y] by simp
  qed
qed

lemma withoutLength_iff: "withoutLength v \<longleftrightarrow> (\<nexists>s. v = JStr s \<and> s \<noteq> [])"
  by (cases v) auto

lemma processKnownEnvVars_object:
  "processKnownEnvVars h (JObj kvs) =
     (case isAWSSecretsManagerSource (JObj kvs) of
        Inl e \<Rightarrow> Inl e
      | Inr True \<Rightarrow> Inr (getAWSSecretsManagerEnvVarNames (JObj kvs))
      | Inr False \<Rightarrow>
          Inl (BadArgsError ''bad env vars source configuration (refer to documentation)''))"
  by (simp add: processKnownEnvVars_def)

lemma partial_source:
  assumes "\<exists>k\<in>set requiredProperties. k \<in> fst ` set kvs"
    and "\<exists>k\<in>set requiredProperties. k \<notin> fst ` set kvs"
  shows "isAWSSecretsManagerSource (JObj kvs) = Inl requiresAll"
proof -
  have a: "\<not> hasAllProperties (map fst kvs) requiredProperties"
    using assms(2) by (auto simp add: hasAllProperties_def list_all_iff)
  have b: "hasPartialProperties (map fst kvs) requiredProperties"
    using assms(1) by (auto simp add: hasPartialProperties_def list_ex_iff)
  show ?thesis
    using a b
    by (simp add: isAWSSecretsManagerSource_def createExternalSourceCheck_def requiresAll_def
          toQuotedStringList_def requiredProperties_def)
qed

lemma requiredProperties_nonempty:
  "i < length requiredProperties \<Longrightarrow> requiredProperties ! i \<noteq> []"
  by (auto simp add: requiredProperties_def less_Suc_eq numeral_eq_Suc)

lemma complete_source_bad_value:
  assumes "\<forall>k\<in>set requiredProperties. k \<in> fst ` set kvs"
    and "i < length requiredProperties"
    and "\<nexists>s. getProp (JObj kvs) (requiredProperties ! i) = JStr s \<and> s \<noteq> []"
    and "\<forall>j<i. \<exists>s. getProp (JObj kvs) (requiredProperties ! j) = JStr s \<and> s \<noteq> []"
  shows "isAWSSecretsManagerSource (JObj kvs) = Inl (missingValue (requiredProperties ! i))"
proof -
  have a: "hasAllProperties (map fst kvs) requiredProperties"
    using assms(1) by (auto simp add: hasAllProperties_def list_all_iff)
  have "find (\<lambda>k. withoutLength (getProp (JObj kvs) k)) requiredProperties
          = Some (requiredProperties ! i)"
    unfolding find_Some_iff withoutLength_iff using assms(2-4) by blast
  then show ?thesis
    using a requiredProperties_nonempty [OF assms(2)]
    by (simp add: isAWSSecretsManagerSource_def createExternalSourceCheck_def missingValue_def
          del: getProp.simps)
qed

subsection \<open>The gate and the build\<close>

lemma build_resolved:
  assumes "knownEnvVars this = Resolved names" and "0 < knownEnvVarsTimeout this"
  shows "build h this evs = Some (afterCompile (scan names this evs) [])"
  using assms by (simp add: build_def beforeCompile_def settle_def)

lemma find_known_None:
  "n \<in> set known \<Longrightarrow> find (\<lambda>ev. fst ev = n \<and> reportable this known ev) evs = None"
  by (auto simp add: find_None_iff reportable_def)

lemma hook_never_rejected: "hook (beforeCompile h this) \<noteq> HookRejected e"
  by (simp add: beforeCompile_def bail_def split: settlement.splits)

lemma rejection_leaves_hook_pending:
  assumes "settle h (knownEnvVars this) = Rejected t e" and "t < knownEnvVarsTimeout this"
  shows "hook (beforeCompile h this) = HookPending"
    and "unhandledRejection (beforeCompile h this) = Some e"
    and "build h this evs = None"
  using assms by (simp_all add: beforeCompile_def build_def)

subsection \<open>Construction of the example instance\<close>

lemma constructor_srcOptions: "constructor exampleHost srcOptions = Inr srcPlugin"
  by (simp add: constructor_def construct_def withDefault_def srcOptions_def srcPlugin_def
        exampleHost_def processKnownEnvVars_def bindE_def processStringOrRegexArrayInput_def
        envFile_def dotenvLines_def List.map_filter_simps)

section \<open>Properties of the recognition decision and of the record of names\<close>

text \<open>
  C1, as the code has it. For every name and module, the branch that decides is the first
  one, in the order known set, record of names already found, outside the included paths,
  inside an excluded path, ignored name, whose condition holds; the third condition is that
  no include check matches the module path, which is also the case when \<open>includePaths\<close> is
  empty. The access is recognised unless the last branch decides; then the visitor appends
  the name with its module to the record, and otherwise it changes nothing.
\<close>

theorem recognition_rule_order:
  "(fst (isRecognisedEnvVar this known envVar (userRequest m)) = ruleLabel r
      \<longleftrightarrow> ruleHolds this known envVar (userRequest m) r
          \<and> (\<forall>r'. ruleIndex r' < ruleIndex r \<longrightarrow> \<not> ruleHolds this known envVar (userRequest m) r'))
   \<and> (snd (isRecognisedEnvVar this known envVar (userRequest m))
      \<longleftrightarrow> fst (isRecognisedEnvVar this known envVar (userRequest m)) \<noteq> ruleLabel Otherwise)
   \<and> (fst (isRecognisedEnvVar this known envVar (userRequest m)) = ruleLabel Otherwise
      \<longrightarrow> foundUnrecognisedEnvVars (MemberExpression known this (envVar, m))
            = foundUnrecognisedEnvVars this @ [(envVar, m)])
   \<and> (fst (isRecognisedEnvVar this known envVar (userRequest m)) \<noteq> ruleLabel Otherwise
      \<longrightarrow> MemberExpression known this (envVar, m) = this)"
proof -
  have "fst (isRecognisedEnvVar this known envVar (userRequest m)) \<noteq> ruleLabel Otherwise
      \<longrightarrow> MemberExpression known this (envVar, m) = this"
    using result_iff_label [of this known envVar "userRequest m"] by (simp add: MemberExpression_def)
  then show ?thesis
    using label_first_match [of this known envVar "userRequest m" r]
    by (simp add: result_iff_label visit_found)
qed

theorem recognition_rule_order_witness:
  "fst (isRecognisedEnvVar srcPlugin [''A'', ''B''] ''C'' (userRequest (srcModule ''gen/x.js'')))
     = ''in excludePaths''
   \<and> foundUnrecognisedEnvVars (MemberExpression [''A'', ''B''] srcPlugin (''C'', srcModule ''x.js''))
     = [(''C'', srcModule ''x.js'')]
   \<and> MemberExpression [''A'', ''B''] srcPlugin (''C'', srcModule ''gen/x.js'') = srcPlugin"
proof -
  have ex: "ruleHolds srcPlugin [''A'', ''B''] ''C'' (userRequest (srcModule ''gen/x.js'')) InExclude
    \<and> (\<forall>r'. ruleIndex r' < ruleIndex InExclude
          \<longrightarrow> \<not> ruleHolds srcPlugin [''A'', ''B''] ''C'' (userRequest (srcModule ''gen/x.js'')) r')"
    by (simp add: all_rules srcPlugin_def srcModule_def pathCheck_def)
  have un: "ruleHolds srcPlugin [''A'', ''B''] ''C'' (userRequest (srcModule ''x.js'')) Otherwise
    \<and> (\<forall>r'. ruleIndex r' < ruleIndex Otherwise
          \<longrightarrow> \<not> ruleHolds srcPlugin [''A'', ''B''] ''C'' (userRequest (srcModule ''x.js'')) r')"
    by (simp add: all_rules srcPlugin_def srcModule_def pathCheck_def ignoreCheck_def
          stripProcessEnv_def)
  show ?thesis
    using recognition_rule_order [of srcPlugin "[''A'', ''B'']" "''C''" "srcModule ''gen/x.js''" InExclude]
      recognition_rule_order [of srcPlugin "[''A'', ''B'']" "''C''" "srcModule ''x.js''" Otherwise]
      ex un
    by (simp add: srcPlugin_def)
qed

text \<open>
  C1 as the specification words it asks, in the third rule, that \<open>includePaths\<close> is not
  empty. On the instance built from \<open>{knownEnvVars: []}\<close> none of the five conditions so
  worded holds for the name \<open>UNKNOWN\<close> in \<open>/src/x.js\<close>, yet the code recognises the access
  as outside the included paths and records nothing.
\<close>

theorem claimed_rule_order_counterexample:
  "constructor exampleHost (JObj [(''knownEnvVars'', JArr [])]) = Inr unconfigured
   \<and> \<not> claimedHolds unconfigured [] ''UNKNOWN'' (userRequest (srcModule ''x.js'')) InKnown
   \<and> \<not> claimedHolds unconfigured [] ''UNKNOWN'' (userRequest (srcModule ''x.js'')) InFound
   \<and> \<not> claimedHolds unconfigured [] ''UNKNOWN'' (userRequest (srcModule ''x.js'')) OutsideInclude
   \<and> \<not> claimedHolds unconfigured [] ''UNKNOWN'' (userRequest (srcModule ''x.js'')) InExclude
   \<and> \<not> claimedHolds unconfigured [] ''UNKNOWN'' (userRequest (srcModule ''x.js'')) InIgnore
   \<and> isRecognisedEnvVar unconfigured [] ''UNKNOWN'' (userRequest (srcModule ''x.js''))
       = (''outside includePaths'', True)
   \<and> foundUnrecognisedEnvVars (MemberExpression [] unconfigured (''UNKNOWN'', srcModule ''x.js'')) = []"
  by (simp add: constructor_def construct_def withDefault_def unconfigured_def
        exampleHost_def processKnownEnvVars_def bindE_def processStringOrRegexArrayInput_def
        isRecognisedEnvVar_def MemberExpression_def Map_has_def)

text \<open>
  C2, as the code has it. When the \<open>includePaths\<close> option is absent, falsy or the empty
  array, the instance has no include check, the third branch holds for every module, and
  so every access is recognised whatever its name and module: the accesses of a build
  leave the instance as it was, and a build that compiles ends with no diagnostic.
\<close>

theorem empty_includePaths_reports_nothing:
  assumes "constructor h options = Inr this"
    and "\<not> truthy (getProp (withDefault options) ''includePaths'')
         \<or> getProp (withDefault options) ''includePaths'' = JArr []"
  shows "snd (isRecognisedEnvVar this known envVar modulePath)
     \<and> scan known this evs = this
     \<and> (build h this evs = None \<or> build h this evs = Some [])"
proof -
  have c: "construct h (withDefault options) = Inr this"
    using assms(1) by (rule constructor_construct)
  have inc: "includePaths this = []"
    using construct_fields(5) [OF c] processStringOrRegexArrayInput_empty [OF assms(2)]
    by simp
  have found: "foundUnrecognisedEnvVars this = []"
    using construct_fields(2) [OF c] .
  have "snd (isRecognisedEnvVar this known envVar modulePath)"
    using inc by (simp add: isRecognisedEnvVar_def)
  moreover have "build h this evs = None \<or> build h this evs = Some []"
    by (simp add: build_def scan_unchanged [OF inc] afterCompile_def found
          split: hook_state.splits option.splits)
  ultimately show ?thesis using scan_unchanged [OF inc] by simp
qed

theorem empty_includePaths_reports_nothing_witness:
  "snd (isRecognisedEnvVar unconfigured [] ''UNKNOWN'' ''/src/x.js'')
   \<and> build exampleHost unconfigured
        [(''UNKNOWN'', srcModule ''x.js''), (''OTHER'', srcModule ''y.js'')] = Some []"
proof -
  have c: "constructor exampleHost (JObj [(''knownEnvVars'', JArr [])]) = Inr unconfigured"
    by (simp add: constructor_def construct_def withDefault_def unconfigured_def
        exampleHost_def processKnownEnvVars_def bindE_def processStringOrRegexArrayInput_def)
  have e: "\<not> truthy (getProp (withDefault (JObj [(''knownEnvVars'', JArr [])])) ''includePaths'')
      \<or> getProp (withDefault (JObj [(''knownEnvVars'', JArr [])])) ''includePaths'' = JArr []"
    by (simp add: withDefault_def)
  have b: "build exampleHost unconfigured
        [(''UNKNOWN'', srcModule ''x.js''), (''OTHER'', srcModule ''y.js'')] \<noteq> None"
    by (simp add: build_def beforeCompile_def settle_def unconfigured_def)
  show ?thesis
    using empty_includePaths_reports_nothing [OF c e, of "[]" "''UNKNOWN''" "''/src/x.js''"
        "[(''UNKNOWN'', srcModule ''x.js''), (''OTHER'', srcModule ''y.js'')]"] b
    by simp
qed

text \<open>
  C2 as the specification words it: with \<open>includePaths\<close> empty, a name that is not known,
  not ignored and not in an excluded path is reported. On the instance without include
  checks the name \<open>UNKNOWN\<close> in \<open>/src/x.js\<close> is such a name, it is recognised, and the
  build ends with no diagnostic.
\<close>

theorem empty_includePaths_counterexample:
  "includePaths unconfigured = []
   \<and> ''UNKNOWN'' \<notin> set []
   \<and> \<not> list_ex (\<lambda>check. check ''UNKNOWN'') (ignoreEnvVars unconfigured)
   \<and> \<not> list_ex (\<lambda>check. check (userRequest (srcModule ''x.js''))) (excludePaths unconfigured)
   \<and> snd (isRecognisedEnvVar unconfigured [] ''UNKNOWN'' (userRequest (srcModule ''x.js'')))
   \<and> build exampleHost unconfigured [(''UNKNOWN'', srcModule ''x.js'')] = Some []"
  by (simp add: unconfigured_def isRecognisedEnvVar_def build_def beforeCompile_def settle_def
        scan_def MemberExpression_def afterCompile_def Map_has_def)

text \<open>
  C3. A name that the record holds keeps its module through all the accesses of a build.
  Starting from the empty record of a new instance, the record never holds a name twice;
  the module it holds for a name is the module of the first access to that name that
  nothing but the record could keep from being reported; and the diagnostics about the
  name at the end of the scan are exactly one, carrying that module, when there is such
  an access, and none otherwise, however many accesses there are and from whichever
  modules.
\<close>

theorem first_unrecognised_access_wins:
  "(map_of (foundUnrecognisedEnvVars this) n = Some m
      \<longrightarrow> map_of (foundUnrecognisedEnvVars (scan known this evs)) n = Some m)
   \<and> (foundUnrecognisedEnvVars this = []
      \<longrightarrow> distinct (map fst (foundUnrecognisedEnvVars (scan known this evs)))
        \<and> map_of (foundUnrecognisedEnvVars (scan known this evs)) n
            = map_option snd (find (\<lambda>ev. fst ev = n \<and> reportable this known ev) evs)
        \<and> diagnosticsFor n (afterCompile (scan known this evs) [])
            = (case find (\<lambda>ev. fst ev = n \<and> reportable this known ev) evs of
                 None \<Rightarrow> []
               | Some ev \<Rightarrow> [newUnrecognisedEnvVarError n (snd ev)]))"
proof -
  have "foundUnrecognisedEnvVars this = []
      \<longrightarrow> distinct (map fst (foundUnrecognisedEnvVars (scan known this evs)))"
    using scan_distinct [of this known evs] by simp
  then show ?thesis
    using scan_map_of [of known this evs n] diagnosticsFor_scan [of this n known evs]
    by (auto split: option.splits)
qed

theorem first_unrecognised_access_wins_witness:
  "diagnosticsFor ''C''
     (afterCompile
        (scan [''A'', ''B''] srcPlugin
           [(''A'', srcModule ''a.js''), (''C'', srcModule ''gen/g.js''), (''C'', srcModule ''a.js''),
            (''C'', srcModule ''b.js''), (''C'', srcModule ''a.js'')]) [])
     = [\<lparr>e_message = ''Unrecognised environment variable: C'',
         e_name = ''UnrecognisedEnvVarError'', e_module = srcModule ''a.js''\<rparr>]
   \<and> map_of (foundUnrecognisedEnvVars
        (scan [''A'', ''B''] (srcPlugin\<lparr>foundUnrecognisedEnvVars := [(''C'', srcModule ''z.js'')]\<rparr>)
           [(''C'', srcModule ''a.js''), (''C'', srcModule ''b.js'')])) ''C''
     = Some (srcModule ''z.js'')"
proof -
  have f: "foundUnrecognisedEnvVars srcPlugin = []"
    by (simp add: srcPlugin_def)
  have g: "map_of (foundUnrecognisedEnvVars
             (srcPlugin\<lparr>foundUnrecognisedEnvVars := [(''C'', srcModule ''z.js'')]\<rparr>)) ''C''
           = Some (srcModule ''z.js'')"
    by simp
  show ?thesis
    using first_unrecognised_access_wins [of srcPlugin "''C''" "srcModule ''z.js''" "[''A'', ''B'']"
        "[(''A'', srcModule ''a.js''), (''C'', srcModule ''gen/g.js''), (''C'', srcModule ''a.js''),
            (''C'', srcModule ''b.js''), (''C'', srcModule ''a.js'')]"]
      first_unrecognised_access_wins
        [of "srcPlugin\<lparr>foundUnrecognisedEnvVars := [(''C'', srcModule ''z.js'')]\<rparr>" "''C''"
          "srcModule ''z.js''" "[''A'', ''B'']"
          "[(''C'', srcModule ''a.js''), (''C'', srcModule ''b.js'')]"]
      f g
    by (simp add: reportable_def srcPlugin_def srcModule_def pathCheck_def ignoreCheck_def
          stripProcessEnv_def newUnrecognisedEnvVarError_def)
qed

section \<open>Properties of ignored names\<close>

text \<open>
  C10, as the code has it. A string entry of \<open>ignoreEnvVars\<close> compiles to the check that
  compares the entry, as it is written, with the candidate name stripped of one leading
  \<open>process.env.\<close>. So an entry that itself begins with \<open>process.env.\<close> matches exactly one
  candidate, the entry with a further \<open>process.env.\<close> in front; it matches no candidate
  that does not begin with \<open>process.env.\<close>, hence no property name found by the parser.
\<close>

theorem qualified_ignore_literal:
  "compileEntry t ignoreCheck (JStr literal) = Inr (ignoreCheck literal)
   \<and> (ignoreCheck literal input \<longleftrightarrow> literal = stripProcessEnv input)
   \<and> stripProcessEnv (''process.env.'' @ input) = input
   \<and> (startsWith literal ''process.env.''
      \<longrightarrow> (ignoreCheck literal input \<longleftrightarrow> input = ''process.env.'' @ literal))
   \<and> (startsWith literal ''process.env.'' \<and> \<not> startsWith input ''process.env.''
      \<longrightarrow> \<not> ignoreCheck literal input)"
proof -
  have "startsWith literal ''process.env.'' \<and> \<not> startsWith input ''process.env.''
      \<longrightarrow> \<not> ignoreCheck literal input"
    by (auto simp add: ignoreCheck_def stripProcessEnv_other)
  then show ?thesis
    using ignoreCheck_qualified [of literal input]
    by (simp add: ignoreCheck_def [abs_def] stripProcessEnv_qualified del: append.simps)
qed

theorem qualified_ignore_literal_witness:
  "\<not> ignoreCheck ''process.env.FOO'' ''FOO''
   \<and> \<not> ignoreCheck ''process.env.FOO'' ''process.env.FOO''
   \<and> ignoreCheck ''FOO'' ''process.env.FOO''"
proof -
  have a: "startsWith ''process.env.FOO'' ''process.env.''" by simp
  have b: "\<not> startsWith ''FOO'' ''process.env.''" by simp
  show ?thesis
    using qualified_ignore_literal [of "template exampleHost" "''process.env.FOO''" "''FOO''"]
      qualified_ignore_literal
        [of "template exampleHost" "''process.env.FOO''" "''process.env.FOO''"]
      qualified_ignore_literal [of "template exampleHost" "''FOO''" "''FOO''"]
      a b
    by (simp add: ignoreCheck_def stripProcessEnv_def)
qed

text \<open>
  C10 as the specification words it: an entry that begins with \<open>process.env.\<close> matches no
  candidate at all. The check compiled from the entry \<open>process.env.FOO\<close> matches the
  candidate \<open>process.env.process.env.FOO\<close>.
\<close>

theorem qualified_ignore_literal_counterexample:
  "startsWith ''process.env.FOO'' ''process.env.''
   \<and> compileEntry (template exampleHost) ignoreCheck (JStr ''process.env.FOO'')
       = Inr (ignoreCheck ''process.env.FOO'')
   \<and> ignoreCheck ''process.env.FOO'' ''process.env.process.env.FOO''"
  by (simp add: ignoreCheck_def [abs_def] stripProcessEnv_def)

section \<open>Properties of the sources of the known names\<close>

text \<open>
  C8. For an array source whose elements are all strings the promise is resolved with the
  elements in their order, each stripped of one leading \<open>process.env.\<close> (a name that does
  not begin with it is kept as it is); as a set, these are the stripped names with
  duplicates collapsed, and the known names are only ever tested for membership. If any
  element is not a string, the constructor throws the error saying that all elements are
  expected to be string.
\<close>

theorem explicit_list_source:
  "processKnownEnvVars h (JArr (map JStr ss)) = Inr (Resolved (map stripProcessEnv ss))
   \<and> set (map stripProcessEnv ss) = stripProcessEnv ` set ss
   \<and> settle h (Resolved (map stripProcessEnv ss)) = Fulfilled 0 (map stripProcessEnv ss)
   \<and> stripProcessEnv (''process.env.'' @ s) = s
   \<and> (\<not> startsWith s ''process.env.'' \<longrightarrow> stripProcessEnv s = s)
   \<and> (x \<in> set xs \<and> (\<nexists>s. x = JStr s) \<longrightarrow> processKnownEnvVars h (JArr xs) = Inl notAllStrings)"
proof -
  have "x \<in> set xs \<and> (\<nexists>s. x = JStr s) \<longrightarrow> processKnownEnvVars h (JArr xs) = Inl notAllStrings"
    using mapE_envVarName_not_string [of x xs] by (auto simp add: processKnownEnvVars_def)
  then show ?thesis
    by (simp add: processKnownEnvVars_def mapE_envVarName_strings
          settle_def stripProcessEnv_qualified stripProcessEnv_other del: append.simps)
qed

theorem explicit_list_source_witness:
  "processKnownEnvVars exampleHost (JArr [JStr ''process.env.A'', JStr ''B'', JStr ''B''])
     = Inr (Resolved [''A'', ''B'', ''B''])
   \<and> set [''A'', ''B'', ''B''] = {''A'', ''B''}
   \<and> processKnownEnvVars exampleHost (JArr [JStr ''A'', JNum 1, JStr ''B'']) = Inl notAllStrings"
proof -
  have a: "JNum 1 \<in> set [JStr ''A'', JNum 1, JStr ''B''] \<and> (\<nexists>s. JNum 1 = JStr s)"
    by simp
  have b: "\<not> startsWith ''B'' ''process.env.''"
    by simp
  show ?thesis
    using explicit_list_source [of exampleHost "[''process.env.A'', ''B'', ''B'']" "''A''"
        "JNum 1" "[JStr ''A'', JNum 1, JStr ''B'']"] a
      explicit_list_source [of exampleHost "[]" "''B''" "JNum 1" "[JStr ''A'', JNum 1, JStr ''B'']"] b
    by (simp add: stripProcessEnv_def)
qed

text \<open>
  C9, as the code has it. For a source that is a string other than the empty one: if
  \<open>existsSync\<close> finds nothing at the path, the constructor throws the error saying that no
  file exists at the path; if the path exists and cannot be read, the error of the read is
  thrown; if it is read, the promise is resolved with the keys that \<open>dotenv\<close> parses from
  the content. For an instance built from such a source the build compiles with these keys
  as the known names: no diagnostic is about a key of the file, and the diagnostics about
  any name are one, for the first access in scanned scope, or none.
\<close>

theorem file_source:
  assumes "path \<noteq> []"
  shows "(\<not> existsSync h path \<longrightarrow> processKnownEnvVars h (JStr path) = Inl noFileAtPath)
    \<and> (existsSync h path \<and> readFileSync h path = Inl e
        \<longrightarrow> processKnownEnvVars h (JStr path) = Inl e)
    \<and> (existsSync h path \<and> readFileSync h path = Inr content
        \<longrightarrow> processKnownEnvVars h (JStr path) = Inr (Resolved (map fst (dotenv_parse h content)))
          \<and> set (map fst (dotenv_parse h content)) = fst ` set (dotenv_parse h content))
    \<and> (constructor h options = Inr this
         \<and> getProp (withDefault options) ''knownEnvVars'' = JStr path
         \<and> readFileSync h path = Inr content
        \<longrightarrow> existsSync h path
          \<and> build h this evs
              = Some (afterCompile (scan (map fst (dotenv_parse h content)) this evs) [])
          \<and> (n \<in> fst ` set (dotenv_parse h content)
               \<longrightarrow> diagnosticsFor n
                     (afterCompile (scan (map fst (dotenv_parse h content)) this evs) []) = [])
          \<and> diagnosticsFor n (afterCompile (scan (map fst (dotenv_parse h content)) this evs) [])
              = (case find (\<lambda>ev. fst ev = n
                                \<and> reportable this (map fst (dotenv_parse h content)) ev) evs of
                   None \<Rightarrow> []
                 | Some ev \<Rightarrow> [newUnrecognisedEnvVarError n (snd ev)]))"
proof -
  have p: "processKnownEnvVars h (JStr path) =
      (if \<not> existsSync h path then Inl noFileAtPath
       else case readFileSync h path of
              Inl e \<Rightarrow> Inl e
            | Inr buffer \<Rightarrow> Inr (Resolved (map fst (dotenv_parse h buffer))))"
    using assms by (simp add: processKnownEnvVars_def noFileAtPath_def)
  have "existsSync h path
        \<and> build h this evs
              = Some (afterCompile (scan (map fst (dotenv_parse h content)) this evs) [])
        \<and> (n \<in> fst ` set (dotenv_parse h content)
               \<longrightarrow> diagnosticsFor n
                     (afterCompile (scan (map fst (dotenv_parse h content)) this evs) []) = [])
        \<and> diagnosticsFor n (afterCompile (scan (map fst (dotenv_parse h content)) this evs) [])
              = (case find (\<lambda>ev. fst ev = n
                                \<and> reportable this (map fst (dotenv_parse h content)) ev) evs of
                   None \<Rightarrow> []
                 | Some ev \<Rightarrow> [newUnrecognisedEnvVarError n (snd ev)])"
    if c: "constructor h options = Inr this"
      and g: "getProp (withDefault options) ''knownEnvVars'' = JStr path"
      and r: "readFileSync h path = Inr content"
  proof -
    have cc: "construct h (withDefault options) = Inr this"
      using c by (rule constructor_construct)
    have k: "processKnownEnvVars h (JStr path) = Inr (knownEnvVars this)"
      using construct_fields(3) [OF cc] g by simp
    have ex: "existsSync h path"
      using k p by (auto split: if_splits)
    have kn: "knownEnvVars this = Resolved (map fst (dotenv_parse h content))"
      using k p ex r by simp
    have t: "0 < knownEnvVarsTimeout this"
      using construct_fields(1) [OF cc] by simp
    have f: "foundUnrecognisedEnvVars this = []"
      using construct_fields(2) [OF cc] .
    have d: "diagnosticsFor n (afterCompile (scan (map fst (dotenv_parse h content)) this evs) [])
              = (case find (\<lambda>ev. fst ev = n
                                \<and> reportable this (map fst (dotenv_parse h content)) ev) evs of
                   None \<Rightarrow> []
                 | Some ev \<Rightarrow> [newUnrecognisedEnvVarError n (snd ev)])"
      using diagnosticsFor_scan [OF f] .
    have "n \<in> fst ` set (dotenv_parse h content)
               \<longrightarrow> diagnosticsFor n
                     (afterCompile (scan (map fst (dotenv_parse h content)) this evs) []) = []"
      using find_known_None [of n "map fst (dotenv_parse h content)" this evs] d by simp
    then show ?thesis
      using ex build_resolved [OF kn t] d by simp
  qed
  then show ?thesis
    using p by simp
qed

theorem file_source_witness:
  "processKnownEnvVars exampleHost (JStr ''/app/.env'') = Inr (Resolved [''A'', ''B''])
   \<and> processKnownEnvVars exampleHost (JStr ''/nowhere'') = Inl noFileAtPath
   \<and> processKnownEnvVars exampleHost (JStr ''/app'') = Inl isDirectory
   \<and> build exampleHost srcPlugin
        [(''A'', srcModule ''a.js''), (''B'', srcModule ''b.js''),
         (''C'', srcModule ''a.js''), (''C'', srcModule ''b.js'')]
       = Some [\<lparr>e_message = ''Unrecognised environment variable: C'',
                 e_name = ''UnrecognisedEnvVarError'', e_module = srcModule ''a.js''\<rparr>]
   \<and> diagnosticsFor ''A''
        (afterCompile (scan [''A'', ''B''] srcPlugin
           [(''A'', srcModule ''a.js''), (''B'', srcModule ''b.js''),
            (''C'', srcModule ''a.js''), (''C'', srcModule ''b.js'')]) []) = []"
proof -
  have p1: "''/app/.env'' \<noteq> []" and p2: "''/nowhere'' \<noteq> []" and p3: "''/app'' \<noteq> []"
    by simp_all
  have x1: "existsSync exampleHost ''/app/.env''
            \<and> readFileSync exampleHost ''/app/.env'' = Inr envFile"
    by (simp add: exampleHost_def)
  have x2: "\<not> existsSync exampleHost ''/nowhere''"
    by (simp add: exampleHost_def)
  have x3: "existsSync exampleHost ''/app'' \<and> readFileSync exampleHost ''/app'' = Inl isDirectory"
    by (simp add: exampleHost_def)
  have k: "map fst (dotenv_parse exampleHost envFile) = [''A'', ''B'']"
    by (simp add: exampleHost_def envFile_def dotenvLines_def List.map_filter_simps)
  have g: "getProp (withDefault srcOptions) ''knownEnvVars'' = JStr ''/app/.env''"
    by (simp add: withDefault_def srcOptions_def)
  have b: "afterCompile (scan [''A'', ''B''] srcPlugin
             [(''A'', srcModule ''a.js''), (''B'', srcModule ''b.js''),
              (''C'', srcModule ''a.js''), (''C'', srcModule ''b.js'')]) []
           = [\<lparr>e_message = ''Unrecognised environment variable: C'',
                e_name = ''UnrecognisedEnvVarError'', e_module = srcModule ''a.js''\<rparr>]"
    by (simp add: srcPlugin_def scan_def MemberExpression_def isRecognisedEnvVar_def Map_has_def
          srcModule_def pathCheck_def ignoreCheck_def stripProcessEnv_def afterCompile_def
          newUnrecognisedEnvVarError_def)
  show ?thesis
    using file_source [OF p1, of exampleHost isDirectory envFile srcOptions srcPlugin
        "[(''A'', srcModule ''a.js''), (''B'', srcModule ''b.js''),
          (''C'', srcModule ''a.js''), (''C'', srcModule ''b.js'')]" "''A''"]
      file_source [OF p2, of exampleHost isDirectory envFile srcOptions srcPlugin "[]" "''A''"]
      file_source [OF p3, of exampleHost isDirectory envFile srcOptions srcPlugin "[]" "''A''"]
      x1 x2 x3 g constructor_srcOptions
    by (simp add: k b diagnosticsFor_def del: scan_Cons scan_Nil)
qed

text \<open>
  C9 as the specification words it: whenever no file exists at the path of a file-path
  source, resolution fails. The empty string is falsy, so it is taken as no source at
  all: nothing exists at the empty path on the example host, and the promise is resolved
  with the names of the environment of the process.
\<close>

theorem file_source_counterexample:
  "\<not> existsSync exampleHost []
   \<and> processKnownEnvVars exampleHost (JStr []) = Inr (Resolved [''HOME''])"
  by (simp add: exampleHost_def processKnownEnvVars_def)

text \<open>
  C6, as the code has it. A source object that has at least one and not all of the four
  required properties makes the constructor throw, before any request is made, the error
  whose message lists all four required properties, \<open>region\<close>, \<open>secretId\<close>,
  \<open>secretAccessKey\<close> and \<open>accessKeyId\<close>, whichever of them are missing.
\<close>

theorem partial_descriptor_lists_all_required:
  assumes "\<exists>k\<in>set requiredProperties. k \<in> fst ` set kvs"
    and "\<exists>k\<in>set requiredProperties. k \<notin> fst ` set kvs"
  shows "processKnownEnvVars h (JObj kvs) = Inl requiresAll
     \<and> (\<nexists>call. processKnownEnvVars h (JObj kvs) = Inr (Requested call))
     \<and> (getProp (withDefault options) ''knownEnvVars'' = JObj kvs
          \<longrightarrow> (constructor h options :: error + 'm ValidateEnvVarsPlugin) = Inl requiresAll)
     \<and> (\<forall>field\<in>set requiredProperties. namesField requiresAll field)"
proof -
  have p: "processKnownEnvVars h (JObj kvs) = Inl requiresAll"
    by (simp add: processKnownEnvVars_object partial_source [OF assms])
  have n: "\<forall>field\<in>set requiredProperties. namesField requiresAll field"
    by (simp add: requiredProperties_def namesField_def requiresAll_def BadArgsError_def
          quoted_def)
  have c: "getProp (withDefault options) ''knownEnvVars'' = JObj kvs
          \<longrightarrow> (constructor h options :: error + 'm ValidateEnvVarsPlugin) = Inl requiresAll"
    using constructor_source_error [OF _ p] by blast
  show ?thesis
    using p n c by simp
qed

theorem partial_descriptor_lists_all_required_witness:
  "constructor exampleHost (JObj [(''knownEnvVars'', partialDescriptor)])
     = (Inl requiresAll :: error + unit ValidateEnvVarsPlugin)
   \<and> namesField requiresAll ''accessKeyId'' \<and> namesField requiresAll ''secretAccessKey''"
proof -
  have a: "\<exists>k\<in>set requiredProperties.
             k \<in> fst ` set [(''region'', JStr ''eu-west-1''), (''secretId'', JStr ''api-env-vars'')]"
    by (simp add: requiredProperties_def)
  have b: "\<exists>k\<in>set requiredProperties.
             k \<notin> fst ` set [(''region'', JStr ''eu-west-1''), (''secretId'', JStr ''api-env-vars'')]"
    by (simp add: requiredProperties_def)
  have g: "getProp (withDefault (JObj [(''knownEnvVars'', partialDescriptor)])) ''knownEnvVars''
             = JObj [(''region'', JStr ''eu-west-1''), (''secretId'', JStr ''api-env-vars'')]"
    by (simp add: withDefault_def partialDescriptor_def)
  show ?thesis
    using partial_descriptor_lists_all_required
      [where 'm = unit, OF a b, of exampleHost "JObj [(''knownEnvVars'', partialDescriptor)]"] g
    by (simp add: requiredProperties_def)
qed

text \<open>
  C6 as the specification words it: the error names exactly the missing fields. For the
  source with \<open>region\<close> and \<open>secretId\<close> only, the message of the error names \<open>region\<close> and
  \<open>secretId\<close>, which the source has.
\<close>

theorem partial_descriptor_counterexample:
  "getProp partialDescriptor ''region'' = JStr ''eu-west-1''
   \<and> getProp partialDescriptor ''secretId'' = JStr ''api-env-vars''
   \<and> getProp partialDescriptor ''accessKeyId'' = JUndefined
   \<and> getProp partialDescriptor ''secretAccessKey'' = JUndefined
   \<and> processKnownEnvVars exampleHost partialDescriptor = Inl requiresAll
   \<and> namesField requiresAll ''region''
   \<and> namesField requiresAll ''secretId''"
  by (simp add: partialDescriptor_def processKnownEnvVars_def isAWSSecretsManagerSource_def
        createExternalSourceCheck_def requiredProperties_def hasAllProperties_def
        hasPartialProperties_def toQuotedStringList_def requiresAll_def namesField_def
        BadArgsError_def quoted_def)

text \<open>
  C7. When the source object has all four required properties and the value of one of
  them is not a non-empty string, the constructor throws, before any request is made, the
  error whose message reads \<open>missing value for property '<field>'\<close> for the first such
  field in the order in which the code lists the required properties: \<open>region\<close>,
  \<open>secretId\<close>, \<open>secretAccessKey\<close>, \<open>accessKeyId\<close>.
\<close>

theorem first_empty_field_is_named:
  assumes "\<forall>k\<in>set requiredProperties. k \<in> fst ` set kvs"
    and "i < length requiredProperties"
    and "\<nexists>s. getProp (JObj kvs) (requiredProperties ! i) = JStr s \<and> s \<noteq> []"
    and "\<forall>j<i. \<exists>s. getProp (JObj kvs) (requiredProperties ! j) = JStr s \<and> s \<noteq> []"
    and "getProp (withDefault options) ''knownEnvVars'' = JObj kvs"
  shows "(constructor h options :: error + 'm ValidateEnvVarsPlugin)
         = Inl (missingValue (requiredProperties ! i))
     \<and> processKnownEnvVars h (JObj kvs) = Inl (missingValue (requiredProperties ! i))
     \<and> (\<nexists>call. processKnownEnvVars h (JObj kvs) = Inr (Requested call))
     \<and> emessage (missingValue (requiredProperties ! i))
         = ''bad AWS SecretsManager source configuration (missing value for property ''
             @ [CHR 0x27] @ requiredProperties ! i @ [CHR 0x27] @ '')''
     \<and> requiredProperties = [''region'', ''secretId'', ''secretAccessKey'', ''accessKeyId'']"
proof -
  have p: "processKnownEnvVars h (JObj kvs) = Inl (missingValue (requiredProperties ! i))"
    by (simp add: processKnownEnvVars_object complete_source_bad_value [OF assms(1-4)])
  have c: "(constructor h options :: error + 'm ValidateEnvVarsPlugin)
             = Inl (missingValue (requiredProperties ! i))"
    using constructor_source_error [OF assms(5) p] .
  show ?thesis
    using p c by (simp add: missingValue_def BadArgsError_def quoted_def requiredProperties_def)
qed

theorem first_empty_field_is_named_witness:
  "constructor exampleHost (JObj [(''knownEnvVars'', emptyKeyDescriptor)])
     = (Inl (missingValue ''secretAccessKey'') :: error + unit ValidateEnvVarsPlugin)"
proof -
  have a: "\<forall>k\<in>set requiredProperties. k \<in> fst ` set
      [(''secretId'', JStr ''api-env-vars''), (''accessKeyId'', JStr []),
           (''secretAccessKey'', JNum 7), (''region'', JStr ''eu-west-1'')]"
    by (simp add: requiredProperties_def)
  have i: "2 < length requiredProperties"
    by (simp add: requiredProperties_def)
  have b: "\<nexists>s. getProp (JObj [(''secretId'', JStr ''api-env-vars''), (''accessKeyId'', JStr []),
           (''secretAccessKey'', JNum 7), (''region'', JStr ''eu-west-1'')])
             (requiredProperties ! 2) = JStr s \<and> s \<noteq> []"
    by (simp add: requiredProperties_def)
  have g: "\<forall>j<2. \<exists>s. getProp (JObj [(''secretId'', JStr ''api-env-vars''), (''accessKeyId'', JStr []),
           (''secretAccessKey'', JNum 7), (''region'', JStr ''eu-west-1'')])
             (requiredProperties ! j) = JStr s \<and> s \<noteq> []"
    by (simp add: requiredProperties_def less_Suc_eq numeral_eq_Suc)
  have o: "getProp (withDefault (JObj [(''knownEnvVars'', emptyKeyDescriptor)])) ''knownEnvVars''
     = JObj [(''secretId'', JStr ''api-env-vars''), (''accessKeyId'', JStr []),
           (''secretAccessKey'', JNum 7), (''region'', JStr ''eu-west-1'')]"
    by (simp add: withDefault_def emptyKeyDescriptor_def)
  show ?thesis
    using first_empty_field_is_named [where 'm = unit, OF a i b g o, of exampleHost]
    by (simp add: requiredProperties_def)
qed

section \<open>Properties of the gate\<close>

text \<open>
  C4, on the code. The constructor sets the timeout to 5000 without reading any option.
  With a timeout of 2000 asked under both names and a secret that arrives after 3000 ms,
  the instance waits with a timeout of 5000, the promise is fulfilled in time, and the hook
  lets compilation start with the names of the secret: no timeout error is thrown.
\<close>

theorem timeout_option_is_not_read:
  "constructor exampleHost hastyOptions = Inr hastyPlugin
   \<and> getProp hastyOptions ''knownEnvVarsTimeout'' = JNum 2000
   \<and> getProp hastyOptions ''knownEnvVarsTimeoutMs'' = JNum 2000
   \<and> knownEnvVarsTimeout hastyPlugin = 5000
   \<and> settle exampleHost (knownEnvVars hastyPlugin) = Fulfilled 3000 [''A'']
   \<and> beforeCompile exampleHost hastyPlugin
       = \<lparr>hook = HookFulfilled, resolvedEnvVars = Some [''A''],
          thrownByTimer = None, unhandledRejection = None\<rparr>"
  by (simp add: constructor_def construct_def withDefault_def hastyOptions_def hastyPlugin_def
        fullDescriptor_def exampleHost_def processKnownEnvVars_def bindE_def
        processStringOrRegexArrayInput_def isAWSSecretsManagerSource_def
        createExternalSourceCheck_def requiredProperties_def hasAllProperties_def
        getAWSSecretsManagerEnvVarNames_def whenTruthy_def settle_def secretCallback_def
        beforeCompile_def pathCheck_def [abs_def])

text \<open>
  C5, on the code. When the secret service refuses the request, the promise of the known
  names is rejected, the timer is cleared, and the promise handed to the \<open>beforeCompile\<close>
  hook is never settled: the rejection is left to the chain that nothing handles. No
  access is classified, since compilation does not start. The same holds when the text of
  the secret is not JSON; the error then carries the prefix of the plugin.
\<close>

theorem rejected_resolution_leaves_gate_pending:
  "constructor refusingHost hastyOptions = Inr hastyPlugin
   \<and> settle refusingHost (knownEnvVars hastyPlugin) = Rejected 100 accessDenied
   \<and> beforeCompile refusingHost hastyPlugin
       = \<lparr>hook = HookPending, resolvedEnvVars = None,
          thrownByTimer = None, unhandledRejection = Some accessDenied\<rparr>
   \<and> build refusingHost hastyPlugin [(''UNKNOWN'', srcModule ''a.js'')] = None
   \<and> settle garbledHost (knownEnvVars hastyPlugin)
       = Rejected 3000
           (JSError ''SyntaxError''
              (''ValidateEnvVars failed parsing SecretString: '' @ emessage unexpectedToken))
   \<and> hook (beforeCompile garbledHost hastyPlugin) = HookPending
   \<and> build garbledHost hastyPlugin [(''UNKNOWN'', srcModule ''a.js'')] = None"
  by (simp add: constructor_def construct_def withDefault_def hastyOptions_def hastyPlugin_def
        fullDescriptor_def exampleHost_def refusingHost_def garbledHost_def unexpectedToken_def
        failedParsing_def PLUGIN_NAME_def processKnownEnvVars_def bindE_def
        processStringOrRegexArrayInput_def isAWSSecretsManagerSource_def
        createExternalSourceCheck_def requiredProperties_def hasAllProperties_def
        getAWSSecretsManagerEnvVarNames_def whenTruthy_def settle_def secretCallback_def
        beforeCompile_def build_def pathCheck_def [abs_def])

end
